theory Spec2Isabelle
  imports Main "HOL-Library.Word" "HOL-Library.AList" "HOL-Library.Char_ord" "HOL-Library.List_Lexorder"
begin

unbundle bit_operations_syntax

section \<open>Strings and numbers of the worker\<close>

text \<open>
  The worker is a single JavaScript module. A JavaScript string is modelled as a
  \<^typ>\<open>string\<close>: one \<^typ>\<open>char\<close> per code unit, which covers every string whose
  code units the worker inspects one by one (a serialised URL is ASCII, header names and
  values are byte strings). \<open>null\<close> is \<^term>\<open>None\<close>.

  A JavaScript number is a double. The only arithmetic of the worker is the hash of the
  target URL, whose intermediate values are integers of magnitude below
  \<open>length t * (2^31 + 2^16)\<close>, exactly representable for every string of less than four
  million characters; they are modelled as \<^typ>\<open>int\<close>.
\<close>

subsection \<open>Fingerprint index (part_000, lines 562-570)\<close>

text \<open>
  \<open>x << n\<close>: the left operand is converted to a signed 32-bit integer, shifted, and the
  result is again a signed 32-bit integer.
\<close>

definition shl32 :: "int \<Rightarrow> nat \<Rightarrow> int" where
  "shl32 x n = sint (push_bit n (word_of_int x :: 32 word))"

text \<open>The reducer \<open>(hash, char) => (hash << 5) - hash + char.charCodeAt(0)\<close>.\<close>

definition hash_step :: "int \<Rightarrow> char \<Rightarrow> int" where
  "hash_step hash c = shl32 hash 5 - hash + int (of_char c)"

text \<open>\<open>targetUrl.split("").reduce(..., 0)\<close>\<close>

definition url_hash :: "string \<Rightarrow> int" where
  "url_hash targetUrl = foldl hash_step 0 targetUrl"

text \<open>\<open>Math.abs(...) % browserFingerprints.length\<close>, the table having four entries.\<close>

definition fingerprintIndex :: "string \<Rightarrow> nat" where
  "fingerprintIndex targetUrl = nat (\<bar>url_hash targetUrl\<bar> mod 4)"

text \<open>
  The selection as the specification words it: a 32-bit hash with the recurrence
  \<open>hash = hash * 31 + charCode\<close> wrapping at 32 bits, its absolute value as a signed
  number, modulo 4.
\<close>

definition hash32_spec :: "string \<Rightarrow> 32 word" where
  "hash32_spec t = foldl (\<lambda>h c. h * 31 + of_nat (of_char c)) 0 t"

definition select_index_spec :: "string \<Rightarrow> nat" where
  "select_index_spec t = nat (\<bar>sint (hash32_spec t)\<bar> mod 4)"

section \<open>The JavaScript runtime\<close>

text \<open>
  The worker calls into the language and the platform: string methods, regular expression
  literals, \<open>decodeURIComponent\<close>, \<open>URL\<close> and \<open>URLSearchParams\<close>, \<open>Headers\<close>. Each is
  modelled here from its standard (ECMAScript, the URL Standard, the Fetch Standard), as
  far as the worker uses it. Text is represented by its UTF-8 bytes, so that a
  percent-escape stands for one byte; header values are byte strings already.
\<close>

subsection \<open>String methods and regular expression literals\<close>

definition startsWith :: "string \<Rightarrow> string \<Rightarrow> bool" where
  "startsWith s p = (take (length p) s = p)"

fun String_includes :: "string \<Rightarrow> string \<Rightarrow> bool" where
  "String_includes [] p = (p = [])"
| "String_includes (c # cs) p = (startsWith (c # cs) p \<or> String_includes cs p)"

text \<open>\<open>toLowerCase\<close>, which the worker applies to header values (code units below 256) only.\<close>

definition lower_char :: "char \<Rightarrow> char" where
  "lower_char c = (let n = (of_char c :: nat) in
     if (65 \<le> n \<and> n \<le> 90) \<or> (192 \<le> n \<and> n \<le> 222 \<and> n \<noteq> 215)
     then char_of (n + 32) else c)"

definition toLowerCase :: "string \<Rightarrow> string" where
  "toLowerCase s = map lower_char s"

text \<open>
  A literal with the \<open>i\<close> flag compares letters by their canonical form; without the
  \<open>u\<close> flag no character outside ASCII is canonically equal to an ASCII letter.
  \<open>istartsWith s p\<close>, for a lower-case ASCII \<open>p\<close>, is the test of \<open>/^p/i\<close> on \<open>s\<close>.
\<close>

definition ascii_lower :: "char \<Rightarrow> char" where
  "ascii_lower c = (let n = (of_char c :: nat) in
     if 65 \<le> n \<and> n \<le> 90 then char_of (n + 32) else c)"

definition istartsWith :: "string \<Rightarrow> string \<Rightarrow> bool" where
  "istartsWith s p = (map ascii_lower (take (length p) s) = p)"

text \<open>\<open>/^https?:\/\//i\<close>\<close>

definition match_http_scheme :: "string \<Rightarrow> bool" where
  "match_http_scheme s = (istartsWith s ''http://'' \<or> istartsWith s ''https://'')"

text \<open>\<open>/^https?%3A%2F%2F/i\<close>\<close>

definition match_encoded_http_scheme :: "string \<Rightarrow> bool" where
  "match_encoded_http_scheme s =
     (istartsWith s ''http%3a%2f%2f'' \<or> istartsWith s ''https%3a%2f%2f'')"

subsection \<open>UTF-8\<close>

definition continuation :: "nat \<Rightarrow> bool" where
  "continuation b = (128 \<le> b \<and> b \<le> 191)"

text \<open>The well-formed byte sequences of one code point (Unicode, table 3-7).\<close>

fun utf8_well_formed :: "nat list \<Rightarrow> bool" where
  "utf8_well_formed [a] = (a < 128)"
| "utf8_well_formed [a, b] = (194 \<le> a \<and> a \<le> 223 \<and> continuation b)"
| "utf8_well_formed [a, b, c] =
     (((a = 224 \<and> 160 \<le> b \<and> b \<le> 191) \<or> (225 \<le> a \<and> a \<le> 236 \<and> continuation b) \<or>
       (a = 237 \<and> 128 \<le> b \<and> b \<le> 159) \<or> (238 \<le> a \<and> a \<le> 239 \<and> continuation b))
      \<and> continuation c)"
| "utf8_well_formed [a, b, c, d] =
     (((a = 240 \<and> 144 \<le> b \<and> b \<le> 191) \<or> (241 \<le> a \<and> a \<le> 243 \<and> continuation b) \<or>
       (a = 244 \<and> 128 \<le> b \<and> b \<le> 143))
      \<and> continuation c \<and> continuation d)"
| "utf8_well_formed bs = False"

text \<open>
  The decoder of the Encoding Standard, which replaces every ill-formed sequence by
  U+FFFD (bytes EF BF BD): \<open>needed\<close> bytes are still expected, the next one between
  \<open>lower\<close> and \<open>upper\<close>; \<open>seen\<close> holds the bytes of the current sequence.
\<close>

definition replacement :: string where
  "replacement = [char_of (239 :: nat), char_of (191 :: nat), char_of (189 :: nat)]"

function utf8_decode_lossy :: "nat \<Rightarrow> nat \<Rightarrow> nat \<Rightarrow> string \<Rightarrow> string \<Rightarrow> string" where
  "utf8_decode_lossy needed lower upper seen [] = (if needed = 0 then [] else replacement)"
| "utf8_decode_lossy needed lower upper seen (c # cs) =
     (let b = (of_char c :: nat) in
      if needed = 0 then
        (if b < 128 then c # utf8_decode_lossy 0 128 191 [] cs
         else if 194 \<le> b \<and> b \<le> 223 then utf8_decode_lossy 1 128 191 [c] cs
         else if 224 \<le> b \<and> b \<le> 239 then
           utf8_decode_lossy 2 (if b = 224 then 160 else 128) (if b = 237 then 159 else 191) [c] cs
         else if 240 \<le> b \<and> b \<le> 244 then
           utf8_decode_lossy 3 (if b = 240 then 144 else 128) (if b = 244 then 143 else 191) [c] cs
         else replacement @ utf8_decode_lossy 0 128 191 [] cs)
      else if b < lower \<or> upper < b then
        replacement @ utf8_decode_lossy 0 128 191 [] (c # cs)
      else if needed = 1 then seen @ c # utf8_decode_lossy 0 128 191 [] cs
      else utf8_decode_lossy (needed - 1) 128 191 (seen @ [c]) cs)"
  by pat_completeness auto
termination
  by (relation "measure (\<lambda>(needed, lower, upper, seen, input).
        2 * length input + (if needed = 0 then 0 else 1))") auto

definition utf8_decode_without_BOM :: "string \<Rightarrow> string" where
  "utf8_decode_without_BOM bytes = utf8_decode_lossy 0 128 191 [] bytes"

subsection \<open>Percent-escapes\<close>

definition hex_digit :: "char \<Rightarrow> nat option" where
  "hex_digit c = (let n = (of_char c :: nat) in
     if 48 \<le> n \<and> n \<le> 57 then Some (n - 48)
     else if 65 \<le> n \<and> n \<le> 70 then Some (n - 55)
     else if 97 \<le> n \<and> n \<le> 102 then Some (n - 87)
     else None)"

text \<open>
  \<open>decodeURIComponent\<close> (ECMAScript, Decode with an empty reserved set): every \<open>%\<close> must
  start an escape \<open>%XX\<close>; an escaped byte of 128 or more must start, with the escapes
  that follow it, the well-formed UTF-8 sequence of one code point; anything else throws
  a URIError, here \<^term>\<open>None\<close>. The string is first cut into literal characters and
  escapes, then the escapes are grouped.
\<close>

datatype token = Lit char | Esc nat

fun escapes :: "string \<Rightarrow> token list option" where
  "escapes [] = Some []"
| "escapes (c # cs) =
     (if c \<noteq> CHR ''%'' then map_option ((#) (Lit c)) (escapes cs)
      else (case cs of
              h1 # h2 # rest \<Rightarrow>
                (case (hex_digit h1, hex_digit h2) of
                   (Some a, Some b) \<Rightarrow> map_option ((#) (Esc (16 * a + b))) (escapes rest)
                 | _ \<Rightarrow> None)
            | _ \<Rightarrow> None))"

text \<open>The number of leading one bits of a first byte of 128 or more; 0 where Decode throws.\<close>

definition sequence_length :: "nat \<Rightarrow> nat" where
  "sequence_length b = (if b < 192 then 0 else if b < 224 then 2 else if b < 240 then 3
                        else if b < 248 then 4 else 0)"

fun escaped :: "token \<Rightarrow> nat option" where
  "escaped (Esc b) = Some b"
| "escaped (Lit c) = None"

function decode_tokens :: "token list \<Rightarrow> string option" where
  "decode_tokens [] = Some []"
| "decode_tokens (Lit c # us) = map_option ((#) c) (decode_tokens us)"
| "decode_tokens (Esc b # us) =
     (if b < 128 then map_option ((#) (char_of b)) (decode_tokens us)
      else let n = sequence_length b in
        if n = 0 \<or> length us < n - 1 then None
        else (case those (map escaped (take (n - 1) us)) of
                None \<Rightarrow> None
              | Some bs \<Rightarrow>
                  if utf8_well_formed (b # bs)
                  then map_option ((@) (map char_of (b # bs))) (decode_tokens (drop (n - 1) us))
                  else None))"
  by pat_completeness auto
termination
  by (relation "measure length") auto

definition decodeURIComponent :: "string \<Rightarrow> string option" where
  "decodeURIComponent s = (case escapes s of None \<Rightarrow> None | Some us \<Rightarrow> decode_tokens us)"

text \<open>
  Percent-decoding of the URL Standard never fails: a \<open>%\<close> that starts no escape is kept.
\<close>

fun percent_decode :: "string \<Rightarrow> string" where
  "percent_decode [] = []"
| "percent_decode (c # cs) =
     (if c \<noteq> CHR ''%'' then c # percent_decode cs
      else (case cs of
              h1 # h2 # rest \<Rightarrow>
                (case (hex_digit h1, hex_digit h2) of
                   (Some a, Some b) \<Rightarrow> char_of (16 * a + b) # percent_decode rest
                 | _ \<Rightarrow> c # percent_decode cs)
            | _ \<Rightarrow> c # percent_decode cs))"

subsection \<open>URLSearchParams\<close>

text \<open>
  The \<open>application/x-www-form-urlencoded\<close> parser: the query is cut at every \<open>&\<close>, empty
  pieces are dropped, each piece is cut at its first \<open>=\<close>, a \<open>+\<close> is a space, and names and
  values are percent-decoded and read as UTF-8.
\<close>

fun split_on :: "char \<Rightarrow> string \<Rightarrow> string list" where
  "split_on d [] = [[]]"
| "split_on d (c # cs) =
     (if c = d then [] # split_on d cs
      else (case split_on d cs of p # ps \<Rightarrow> (c # p) # ps | [] \<Rightarrow> [[c]]))"

definition plus_to_space :: "string \<Rightarrow> string" where
  "plus_to_space s = map (\<lambda>c. if c = CHR ''+'' then CHR '' '' else c) s"

definition urlencoded_string :: "string \<Rightarrow> string" where
  "urlencoded_string s = utf8_decode_without_BOM (percent_decode (plus_to_space s))"

definition urlencoded_pair :: "string \<Rightarrow> string \<times> string" where
  "urlencoded_pair piece =
     (urlencoded_string (takeWhile (\<lambda>c. c \<noteq> CHR ''='') piece),
      urlencoded_string (drop 1 (dropWhile (\<lambda>c. c \<noteq> CHR ''='') piece)))"

definition urlencoded_parse :: "string \<Rightarrow> (string \<times> string) list" where
  "urlencoded_parse query = map urlencoded_pair (filter (\<lambda>p. p \<noteq> []) (split_on CHR ''&'' query))"

text \<open>\<open>searchParams.get(name)\<close>: the value of the first pair of that name, or \<open>null\<close>.\<close>

definition searchParams_get :: "(string \<times> string) list \<Rightarrow> string \<Rightarrow> string option" where
  "searchParams_get params name = map_of params name"

text \<open>\<open>Array.from(searchParams.keys())\<close>: the names of all pairs, in order, with repetitions.\<close>

definition searchParams_keys :: "(string \<times> string) list \<Rightarrow> string list" where
  "searchParams_keys params = map fst params"

subsection \<open>Values the platform computes\<close>

text \<open>
  Some algorithms of the platform are not written out: the host parser of the URL
  Standard (IDNA, IPv4 and IPv6 literals), the compilation of a regular expression given
  as a string, \<open>JSON.parse\<close>, \<open>JSON.stringify\<close> and the wording of an error of the
  \<open>Response\<close> constructor. They are the fields of a \<open>runtime\<close>, and every
  function of the worker that reaches one of them takes the runtime as its first
  argument; what is proved holds for every runtime.
  \<^item> \<open>host_parser input\<close> is the serialised host, or \<^term>\<open>None\<close> on failure;
  \<^item> \<open>RegExp pattern\<close> is \<^term>\<open>None\<close> where the constructor throws a SyntaxError, and
    otherwise the search of the compiled expression: whether it matches somewhere in a
    string;
  \<^item> \<open>JSON_parse text\<close> is \<^term>\<open>None\<close> where \<open>JSON.parse\<close> throws;
  \<^item> \<open>JSON_stringify value\<close> is the text of a value;
  \<^item> \<open>constructor_message status\<close> is the message of the error that \<open>new Response\<close>
    throws when it refuses a status.
\<close>

datatype json =
  JNull | JBool bool | JNumber string | JString string
  | JArray "json list" | JObject "(string \<times> json) list"

record runtime =
  host_parser :: "string \<Rightarrow> string option"
  RegExp :: "string \<Rightarrow> (string \<Rightarrow> bool) option"
  JSON_parse :: "string \<Rightarrow> json option"
  JSON_stringify :: "json \<Rightarrow> string"
  constructor_message :: "nat \<Rightarrow> string"

subsection \<open>URL\<close>

text \<open>
  The URL record of the URL Standard, and its basic URL parser without a base URL for
  the special schemes \<open>ftp\<close>, \<open>http\<close>, \<open>https\<close>, \<open>ws\<close> and \<open>wss\<close>, which share one path
  through the parser. An input of another scheme (\<open>file\<close>, or not special) is a failure
  here; the worker never builds one.
\<close>

record URL =
  scheme :: string
  username :: string
  password :: string
  host :: string
  port :: "nat option"
  path :: "string list"
  query :: "string option"
  fragment :: "string option"

definition C0_control_set :: "char \<Rightarrow> bool" where
  "C0_control_set c = ((of_char c :: nat) < 32 \<or> 126 < (of_char c :: nat))"

definition fragment_set :: "char \<Rightarrow> bool" where
  "fragment_set c = (C0_control_set c \<or> c \<in> set [CHR '' '', CHR 0x22, CHR ''<'', CHR ''>'', CHR 0x60])"

definition query_set :: "char \<Rightarrow> bool" where
  "query_set c = (C0_control_set c \<or> c \<in> set [CHR '' '', CHR 0x22, CHR ''#'', CHR ''<'', CHR ''>''])"

definition special_query_set :: "char \<Rightarrow> bool" where
  "special_query_set c = (query_set c \<or> c = CHR 0x27)"

definition path_set :: "char \<Rightarrow> bool" where
  "path_set c = (query_set c \<or> c \<in> set [CHR ''?'', CHR ''^'', CHR 0x60, CHR ''{'', CHR ''}''])"

definition userinfo_set :: "char \<Rightarrow> bool" where
  "userinfo_set c = (path_set c \<or>
     c \<in> set [CHR ''/'', CHR '':'', CHR '';'', CHR ''='', CHR ''@'', CHR ''['', CHR 0x5C, CHR '']'', CHR ''|''])"

definition hex_char :: "nat \<Rightarrow> char" where
  "hex_char n = (if n < 10 then char_of (48 + n) else char_of (55 + n))"

definition percent_encode :: "(char \<Rightarrow> bool) \<Rightarrow> string \<Rightarrow> string" where
  "percent_encode S s =
     concat (map (\<lambda>c. if S c then [CHR ''%'', hex_char ((of_char c :: nat) div 16),
                                   hex_char ((of_char c :: nat) mod 16)]
                      else [c]) s)"

definition C0_control_or_space :: "char \<Rightarrow> bool" where
  "C0_control_or_space c = ((of_char c :: nat) \<le> 32)"

definition tab_or_newline :: "char \<Rightarrow> bool" where
  "tab_or_newline c = ((of_char c :: nat) \<in> {9, 10, 13})"

definition ascii_alpha :: "char \<Rightarrow> bool" where
  "ascii_alpha c = (let n = (of_char c :: nat) in (65 \<le> n \<and> n \<le> 90) \<or> (97 \<le> n \<and> n \<le> 122))"

definition ascii_digit :: "char \<Rightarrow> bool" where
  "ascii_digit c = (let n = (of_char c :: nat) in 48 \<le> n \<and> n \<le> 57)"

definition scheme_char :: "char \<Rightarrow> bool" where
  "scheme_char c = (ascii_alpha c \<or> ascii_digit c \<or> c \<in> set ''+-.'')"

definition slash :: "char \<Rightarrow> bool" where
  "slash c = (c = CHR ''/'' \<or> c = CHR 0x5C)"

text \<open>Scheme start state and scheme state: the lower-cased scheme and what follows the colon.\<close>

definition parse_scheme :: "string \<Rightarrow> (string \<times> string) option" where
  "parse_scheme input =
     (case input of
        [] \<Rightarrow> None
      | c # cs \<Rightarrow>
          if \<not> ascii_alpha c then None
          else (case dropWhile scheme_char input of
                  [] \<Rightarrow> None
                | d # rest \<Rightarrow>
                    if d = CHR '':'' then Some (map ascii_lower (takeWhile scheme_char input), rest)
                    else None))"

text \<open>
  Authority state: everything before the last \<open>@\<close> is the credentials, cut at their first
  colon; an \<open>@\<close> among them is encoded.
\<close>

definition before_last :: "char \<Rightarrow> string \<Rightarrow> string" where
  "before_last d s = rev (drop 1 (dropWhile (\<lambda>c. c \<noteq> d) (rev s)))"

definition after_last :: "char \<Rightarrow> string \<Rightarrow> string" where
  "after_last d s = rev (takeWhile (\<lambda>c. c \<noteq> d) (rev s))"

text \<open>Host state: the host ends at the first colon outside square brackets.\<close>

fun host_end :: "bool \<Rightarrow> string \<Rightarrow> string \<times> string option" where
  "host_end inside [] = ([], None)"
| "host_end inside (c # cs) =
     (if c = CHR '':'' \<and> \<not> inside then ([], Some cs)
      else (case host_end (if c = CHR ''['' then True else if c = CHR '']'' then False else inside) cs
            of (h, p) \<Rightarrow> (c # h, p)))"

definition decimal_value :: "string \<Rightarrow> nat" where
  "decimal_value ds = foldl (\<lambda>n d. 10 * n + ((of_char d :: nat) - 48)) 0 ds"

definition special_schemes :: "string list" where
  "special_schemes = [''ftp'', ''http'', ''https'', ''ws'', ''wss'']"

definition default_port :: "string \<Rightarrow> nat" where
  "default_port sch = (if sch = ''ftp'' then 21 else if sch = ''http'' \<or> sch = ''ws'' then 80 else 443)"

text \<open>Port state.\<close>

definition parse_port :: "string \<Rightarrow> string option \<Rightarrow> nat option option" where
  "parse_port sch p =
     (case p of
        None \<Rightarrow> Some None
      | Some ds \<Rightarrow>
          if \<not> list_all ascii_digit ds then None
          else if ds = [] then Some None
          else if 65535 < decimal_value ds then None
          else if decimal_value ds = default_port sch then Some None
          else Some (Some (decimal_value ds)))"

text \<open>
  Path state: a segment \<open>..\<close> removes the last segment, a segment \<open>.\<close> adds nothing, both
  also when their dots are written \<open>%2e\<close>; after the last one an empty segment is added.
\<close>

definition single_dot :: "string \<Rightarrow> bool" where
  "single_dot seg = (map ascii_lower seg \<in> set [''.'', ''%2e''])"

definition double_dot :: "string \<Rightarrow> bool" where
  "double_dot seg = (map ascii_lower seg \<in> set [''..'', ''.%2e'', ''%2e.'', ''%2e%2e''])"

fun split_segments :: "string \<Rightarrow> string list" where
  "split_segments [] = [[]]"
| "split_segments (c # cs) =
     (if slash c then [] # split_segments cs
      else (case split_segments cs of p # ps \<Rightarrow> (c # p) # ps | [] \<Rightarrow> [[c]]))"

fun path_state :: "string list \<Rightarrow> string list \<Rightarrow> string list" where
  "path_state acc [] = acc"
| "path_state acc (seg # segs) =
     (let last_one = (segs = []) in
      path_state
        (if double_dot seg then (butlast acc @ (if last_one then [[]] else []))
         else if single_dot seg then (acc @ (if last_one then [[]] else []))
         else acc @ [percent_encode path_set seg])
        segs)"

text \<open>What the parser does first: leading and trailing C0 controls and spaces are removed,
  then every tab and newline.\<close>

definition trim_start :: "string \<Rightarrow> string" where
  "trim_start s = dropWhile C0_control_or_space s"

definition trim_end :: "string \<Rightarrow> string" where
  "trim_end s = rev (dropWhile C0_control_or_space (rev s))"

definition clean :: "string \<Rightarrow> string" where
  "clean s = filter (\<lambda>c. \<not> tab_or_newline c) (trim_end s)"

definition preprocess :: "string \<Rightarrow> string" where
  "preprocess input = clean (trim_start input)"

text \<open>
  From the special authority slashes state on, for a special scheme other than \<open>file\<close>:
  any run of slashes and backslashes, the authority up to the next slash, backslash,
  \<open>?\<close> or \<open>#\<close>, the path up to \<open>?\<close> or \<open>#\<close>, the query up to \<open>#\<close>, the fragment.
\<close>

definition authority_stop :: "char \<Rightarrow> bool" where
  "authority_stop c = (slash c \<or> c = CHR ''?'' \<or> c = CHR ''#'')"

definition path_stop :: "char \<Rightarrow> bool" where
  "path_stop c = (c = CHR ''?'' \<or> c = CHR ''#'')"

definition parse_special :: "runtime \<Rightarrow> string \<Rightarrow> string \<Rightarrow> URL option" where
  "parse_special rt sch after_colon =
     (let after_slashes = dropWhile slash after_colon;
          authority = takeWhile (\<lambda>c. \<not> authority_stop c) after_slashes;
          rest = dropWhile (\<lambda>c. \<not> authority_stop c) after_slashes;
          at_sign = (CHR ''@'' \<in> set authority);
          credentials = (if at_sign then before_last CHR ''@'' authority else []);
          hostport = (if at_sign then after_last CHR ''@'' authority else authority);
          hp = host_end False hostport;
          after_path = dropWhile (\<lambda>c. \<not> path_stop c) rest;
          segments = split_segments
            (takeWhile (\<lambda>c. \<not> path_stop c)
               (if rest \<noteq> [] \<and> slash (hd rest) then tl rest else rest))
      in if fst hp = [] then None
         else case host_parser rt (fst hp) of
                None \<Rightarrow> None
              | Some h \<Rightarrow>
                 (case parse_port sch (snd hp) of
                    None \<Rightarrow> None
                  | Some prt \<Rightarrow>
                      Some \<lparr> scheme = sch,
                             username = percent_encode userinfo_set
                               (takeWhile (\<lambda>c. c \<noteq> CHR '':'') credentials),
                             password = percent_encode userinfo_set
                               (drop 1 (dropWhile (\<lambda>c. c \<noteq> CHR '':'') credentials)),
                             host = h,
                             port = prt,
                             path = path_state [] segments,
                             query =
                               (if after_path \<noteq> [] \<and> hd after_path = CHR ''?''
                                then Some (percent_encode special_query_set
                                       (takeWhile (\<lambda>c. c \<noteq> CHR ''#'') (tl after_path)))
                                else None),
                             fragment =
                               (case dropWhile (\<lambda>c. c \<noteq> CHR ''#'') after_path of
                                  [] \<Rightarrow> None
                                | c # frag \<Rightarrow> Some (percent_encode fragment_set frag)) \<rparr>))"

text \<open>\<open>new URL(input)\<close>; \<^term>\<open>None\<close> where the constructor throws a TypeError.\<close>

definition URL_parse :: "runtime \<Rightarrow> string \<Rightarrow> URL option" where
  "URL_parse rt input =
     (case parse_scheme (preprocess input) of
        None \<Rightarrow> None
      | Some (sch, after_colon) \<Rightarrow>
          if sch \<in> set special_schemes then parse_special rt sch after_colon else None)"

function decimal :: "nat \<Rightarrow> string" where
  "decimal n = (if n < 10 then [char_of (48 + n)]
                else decimal (n div 10) @ [char_of (48 + n mod 10)])"
  by pat_completeness auto
termination
  by (relation "measure id") auto

text \<open>The URL serialiser: the getter \<open>href\<close>.\<close>

definition href :: "URL \<Rightarrow> string" where
  "href u =
     scheme u @ ''://''
     @ (if username u \<noteq> [] \<or> password u \<noteq> []
        then username u @ (if password u \<noteq> [] then '':'' @ password u else []) @ ''@''
        else [])
     @ host u
     @ (case port u of None \<Rightarrow> [] | Some p \<Rightarrow> '':'' @ decimal p)
     @ concat (map (\<lambda>seg. ''/'' @ seg) (path u))
     @ (case query u of None \<Rightarrow> [] | Some q \<Rightarrow> ''?'' @ q)
     @ (case fragment u of None \<Rightarrow> [] | Some f \<Rightarrow> ''#'' @ f)"

text \<open>The getter \<open>search\<close>: empty when the query is absent or empty.\<close>

definition search :: "URL \<Rightarrow> string" where
  "search u = (case query u of None \<Rightarrow> [] | Some q \<Rightarrow> if q = [] then [] else ''?'' @ q)"

text \<open>The getter \<open>searchParams\<close>: the pairs of the query.\<close>

definition searchParams :: "URL \<Rightarrow> (string \<times> string) list" where
  "searchParams u = (case query u of None \<Rightarrow> [] | Some q \<Rightarrow> urlencoded_parse q)"

section \<open>The worker (part_000)\<close>

subsection \<open>Requests and header lists\<close>

text \<open>
  The request holds the URL that \<open>new URL(request.url)\<close> gives (line 252), since the
  platform hands the worker absolute URLs only. A \<open>Headers\<close> object is its header list,
  as the Fetch Standard has it: names match byte-case-insensitively.
\<close>

type_synonym Headers = "(string \<times> string) list"

record Request =
  "method" :: string
  url :: URL
  headers :: Headers
  body :: "string option"

definition same_name :: "string \<Rightarrow> string \<Rightarrow> bool" where
  "same_name a b = (map ascii_lower a = map ascii_lower b)"

fun join :: "string \<Rightarrow> string list \<Rightarrow> string" where
  "join sep [] = []"
| "join sep [x] = x"
| "join sep (x # y # ys) = x @ sep @ join sep (y # ys)"

definition Headers_values :: "Headers \<Rightarrow> string \<Rightarrow> string list" where
  "Headers_values h name = map snd (filter (\<lambda>nv. same_name (fst nv) name) h)"

text \<open>\<open>headers.get(name)\<close>: the values of that name joined by a comma and a space, or \<open>null\<close>.\<close>

definition Headers_get :: "Headers \<Rightarrow> string \<Rightarrow> string option" where
  "Headers_get h name =
     (case Headers_values h name of [] \<Rightarrow> None | v # vs \<Rightarrow> Some (join '', '' (v # vs)))"






text \<open>A string or \<open>null\<close> in a condition: \<open>null\<close> and the empty string are false.\<close>

definition truthy :: "string option \<Rightarrow> bool" where
  "truthy s = (case s of None \<Rightarrow> False | Some v \<Rightarrow> v \<noteq> [])"

subsection \<open>Target URL (lines 321-409)\<close>

text \<open>The loop of lines 340-348 over \<open>paramKeys\<close>, from \<open>reconstructed\<close> so far; the
  condition \<open>value && value !== ""\<close> holds of a string that is not empty.\<close>

fun reconstruct :: "(string \<times> string) list \<Rightarrow> string list \<Rightarrow> string \<Rightarrow> string" where
  "reconstruct params [] reconstructed = reconstructed"
| "reconstruct params (key # keys) reconstructed =
     (let r1 = (if reconstructed \<noteq> [] then reconstructed @ ''/'' else reconstructed);
          r2 = r1 @ key
      in reconstruct params keys
           (case searchParams_get params key of
              None \<Rightarrow> r2
            | Some v \<Rightarrow> if v \<noteq> [] then r2 @ ''='' @ v else r2))"

text \<open>Lines 359-383: the decoding of the search string, with its two \<open>catch\<close> clauses.\<close>

definition decode_catch :: "string \<Rightarrow> string" where
  "decode_catch searchString =
     (if match_encoded_http_scheme searchString \<or> match_http_scheme searchString
      then (case decodeURIComponent searchString of
              Some d \<Rightarrow> d
            | None \<Rightarrow> searchString)
      else searchString)"

definition decode_search :: "string \<Rightarrow> string" where
  "decode_search searchString =
     (case decodeURIComponent searchString of
        None \<Rightarrow> decode_catch searchString
      | Some decoded \<Rightarrow>
          if String_includes decoded ''%''
          then (case decodeURIComponent decoded of
                  None \<Rightarrow> decode_catch searchString
                | Some decoded2 \<Rightarrow> decoded2)
          else decoded)"

text \<open>Lines 334-353: the reconstruction, which sets \<open>targetUrl\<close> only on a match.\<close>

definition reconstruction :: "URL \<Rightarrow> string \<Rightarrow> string option \<Rightarrow> string option" where
  "reconstruction originUrl searchString targetUrl =
     (let paramKeys = searchParams_keys (searchParams originUrl) in
      if 1 < length paramKeys \<or> (length paramKeys = 1 \<and> \<not> String_includes searchString ''='')
      then (let reconstructed = reconstruct (searchParams originUrl) paramKeys [] in
            if match_http_scheme reconstructed then Some reconstructed else targetUrl)
      else targetUrl)"

text \<open>
  The reconstruction as the specification words it: the keys joined by \<open>/\<close>, each
  followed by \<open>=value\<close> when its value is not empty.
\<close>

definition key_piece :: "(string \<times> string) list \<Rightarrow> string \<Rightarrow> string" where
  "key_piece params key =
     key @ (case searchParams_get params key of
              None \<Rightarrow> []
            | Some v \<Rightarrow> if v \<noteq> [] then ''='' @ v else [])"

definition reconstruction_spec :: "(string \<times> string) list \<Rightarrow> string" where
  "reconstruction_spec params = join ''/'' (map (key_piece params) (searchParams_keys params))"

text \<open>
  The decoding as the specification words it: decode once; decode a second time if a
  \<open>%\<close> is left; on failure the previous level, and finally the raw string.
\<close>

definition progressive_decode_spec :: "string \<Rightarrow> string" where
  "progressive_decode_spec raw =
     (case decodeURIComponent raw of
        None \<Rightarrow> raw
      | Some once \<Rightarrow>
          if String_includes once ''%''
          then (case decodeURIComponent once of None \<Rightarrow> once | Some twice \<Rightarrow> twice)
          else once)"

text \<open>Lines 322-386: \<open>targetUrl\<close> before validation.\<close>

definition target_candidate :: "URL \<Rightarrow> string option" where
  "target_candidate originUrl =
     (let targetUrl = searchParams_get (searchParams originUrl) ''url'' in
      if \<not> truthy targetUrl \<and> startsWith (search originUrl) ''?''
      then (let searchString = drop 1 (search originUrl) in
            if searchString \<noteq> []
            then (let targetUrl1 = reconstruction originUrl searchString targetUrl in
                  if \<not> truthy targetUrl1 then Some (decode_search searchString) else targetUrl1)
            else targetUrl)
      else targetUrl)"

text \<open>Lines 391-394: the string handed to the URL constructor.\<close>

definition with_scheme :: "string \<Rightarrow> string" where
  "with_scheme targetUrl =
     (if \<not> match_http_scheme targetUrl then ''https://'' @ targetUrl else targetUrl)"

text \<open>Lines 389-409: validation; a falsy \<open>targetUrl\<close> is left as it is.\<close>

definition validate_target :: "runtime \<Rightarrow> string option \<Rightarrow> string option" where
  "validate_target rt targetUrl =
     (case targetUrl of
        None \<Rightarrow> None
      | Some t \<Rightarrow>
          if t = [] then Some []
          else (case URL_parse rt (with_scheme t) of
                  Some testUrl \<Rightarrow> Some (href testUrl)
                | None \<Rightarrow> None))"

definition resolve_target :: "runtime \<Rightarrow> URL \<Rightarrow> string option" where
  "resolve_target rt originUrl = validate_target rt (target_candidate originUrl)"

subsection \<open>Configuration (lines 22-24, 107-155) and admission (lines 166-172)\<close>










subsection \<open>Streaming decision (lines 184-244)\<close>

datatype body = Null | Text string | Buffered string | Streamed string | InfoText

record Response =
  status :: nat
  statusText :: string
  response_headers :: Headers
  response_body :: body

text \<open>\<open>value || ""\<close>\<close>

definition or_empty :: "string option \<Rightarrow> string" where
  "or_empty v = (case v of None \<Rightarrow> [] | Some s \<Rightarrow> s)"

text \<open>\<open>new URL(targetUrl).searchParams.get("stream")\<close> inside its \<open>try\<close>.\<close>

definition streamParam :: "runtime \<Rightarrow> string \<Rightarrow> string option" where
  "streamParam rt targetUrl =
     (case URL_parse rt targetUrl of
        None \<Rightarrow> None
      | Some u \<Rightarrow> searchParams_get (searchParams u) ''stream'')"

definition shouldStreamResponse :: "runtime \<Rightarrow> Response \<Rightarrow> Request \<Rightarrow> string \<Rightarrow> bool" where
  "shouldStreamResponse rt response request targetUrl =
     (if method request = ''OPTIONS'' then False
      else
        let contentType = or_empty (Headers_get (response_headers response) ''content-type'');
            transferEncoding = or_empty (Headers_get (response_headers response) ''transfer-encoding'');
            acceptHeader = or_empty (Headers_get (headers request) ''accept'');
            contentEncoding = or_empty (Headers_get (response_headers response) ''content-encoding'')
        in if String_includes contentType ''text/event-stream'' then True
           else if String_includes (toLowerCase transferEncoding) ''chunked'' then True
           else if String_includes acceptHeader ''text/event-stream'' then True
           else if targetUrl \<noteq> [] \<and>
                   (streamParam rt targetUrl = Some ''true'' \<or> streamParam rt targetUrl = Some ''1'')
                then True
           else if String_includes contentEncoding ''chunked'' then True
           else if String_includes contentType ''application/x-ndjson'' then True
           else if String_includes contentType ''text/plain'' \<and>
                   String_includes (toLowerCase transferEncoding) ''chunked''
                then True
           else False)"

text \<open>
  The decision as the specification words it, for a request that is no preflight: one
  of six conditions holds.
\<close>

definition shouldStream_spec :: "runtime \<Rightarrow> Response \<Rightarrow> Request \<Rightarrow> string \<Rightarrow> bool" where
  "shouldStream_spec rt upstream request targetUrl =
     (let contentType = or_empty (Headers_get (response_headers upstream) ''content-type'');
          chunked = String_includes
            (toLowerCase (or_empty (Headers_get (response_headers upstream) ''transfer-encoding'')))
            ''chunked''
      in String_includes contentType ''text/event-stream'' \<or>
         chunked \<or>
         String_includes (or_empty (Headers_get (headers request) ''accept'')) ''text/event-stream'' \<or>
         streamParam rt targetUrl = Some ''true'' \<or> streamParam rt targetUrl = Some ''1'' \<or>
         String_includes contentType ''application/x-ndjson'' \<or>
         (String_includes contentType ''text/plain'' \<and> chunked))"

subsection \<open>CORS headers (lines 281-319)\<close>


subsection \<open>Outbound headers (lines 411-417, 468-585)\<close>

text \<open>
  A plain object is the list of its own properties in the order of their creation.
  Defining a property of a name that exists replaces the value in place; this is what
  \<open>JSON.parse\<close> and \<open>Object.fromEntries\<close> do, for every name. (JavaScript enumerates the
  names that are array indices before the others; the list does not, and the properties
  of the outbound headers are stated of the mapping from names to values.)
\<close>

type_synonym object = "(string \<times> json) list"

definition Object_fromEntries :: "object \<Rightarrow> object" where
  "Object_fromEntries entries = foldl (\<lambda>obj kv. AList.update (fst kv) (snd kv) obj) [] entries"







text \<open>Lines 484-560: the four fingerprints.\<close>

definition browserFingerprints :: "string \<Rightarrow> string \<Rightarrow> object list" where
  \<open>browserFingerprints referer secFetchSite =
    [ [ (''User-Agent'', JString ''Mozilla/5.0 (Windows NT 10.0; Win64; x64) AppleWebKit/537.36 (KHTML, like Gecko) Chrome/120.0.0.0 Safari/537.36''),
        (''Accept'', JString ''text/html,application/xhtml+xml,application/xml;q=0.9,image/avif,image/webp,image/apng,*/*;q=0.8,application/signed-exchange;v=b3;q=0.7''),
        (''Accept-Language'', JString ''en-US,en;q=0.9''),
        (''Accept-Encoding'', JString ''gzip, deflate, br''),
        (''Referer'', JString referer),
        (''Sec-Ch-Ua'', JString ''"Not_A Brand";v="8", "Chromium";v="120", "Google Chrome";v="120"''),
        (''Sec-Ch-Ua-Mobile'', JString ''?0''),
        (''Sec-Ch-Ua-Platform'', JString ''"Windows"''),
        (''Sec-Ch-Ua-Platform-Version'', JString ''"15.0.0"''),
        (''Sec-Fetch-Dest'', JString ''document''),
        (''Sec-Fetch-Mode'', JString ''navigate''),
        (''Sec-Fetch-Site'', JString secFetchSite),
        (''Sec-Fetch-User'', JString ''?1''),
        (''Upgrade-Insecure-Requests'', JString ''1''),
        (''Cache-Control'', JString ''max-age=0'') ],
      [ (''User-Agent'', JString ''Mozilla/5.0 (Macintosh; Intel Mac OS X 10_15_7) AppleWebKit/537.36 (KHTML, like Gecko) Chrome/120.0.0.0 Safari/537.36''),
        (''Accept'', JString ''text/html,application/xhtml+xml,application/xml;q=0.9,image/avif,image/webp,image/apng,*/*;q=0.8,application/signed-exchange;v=b3;q=0.7''),
        (''Accept-Language'', JString ''en-US,en;q=0.9''),
        (''Accept-Encoding'', JString ''gzip, deflate, br''),
        (''Referer'', JString referer),
        (''Sec-Ch-Ua'', JString ''"Not_A Brand";v="8", "Chromium";v="120", "Google Chrome";v="120"''),
        (''Sec-Ch-Ua-Mobile'', JString ''?0''),
        (''Sec-Ch-Ua-Platform'', JString ''"macOS"''),
        (''Sec-Ch-Ua-Platform-Version'', JString ''"15.0.0"''),
        (''Sec-Fetch-Dest'', JString ''document''),
        (''Sec-Fetch-Mode'', JString ''navigate''),
        (''Sec-Fetch-Site'', JString secFetchSite),
        (''Sec-Fetch-User'', JString ''?1''),
        (''Upgrade-Insecure-Requests'', JString ''1''),
        (''Cache-Control'', JString ''max-age=0'') ],
      [ (''User-Agent'', JString ''Mozilla/5.0 (Windows NT 10.0; Win64; x64; rv:121.0) Gecko/20100101 Firefox/121.0''),
        (''Accept'', JString ''text/html,application/xhtml+xml,application/xml;q=0.9,image/avif,image/webp,*/*;q=0.8''),
        (''Accept-Language'', JString ''en-US,en;q=0.5''),
        (''Accept-Encoding'', JString ''gzip, deflate, br''),
        (''Referer'', JString referer),
        (''DNT'', JString ''1''),
        (''Connection'', JString ''keep-alive''),
        (''Upgrade-Insecure-Requests'', JString ''1''),
        (''Sec-Fetch-Dest'', JString ''document''),
        (''Sec-Fetch-Mode'', JString ''navigate''),
        (''Sec-Fetch-Site'', JString secFetchSite),
        (''Sec-Fetch-User'', JString ''?1''),
        (''Cache-Control'', JString ''max-age=0'') ],
      [ (''User-Agent'', JString ''Mozilla/5.0 (Macintosh; Intel Mac OS X 10_15_7) AppleWebKit/605.1.15 (KHTML, like Gecko) Version/17.1 Safari/605.1.15''),
        (''Accept'', JString ''text/html,application/xhtml+xml,application/xml;q=0.9,*/*;q=0.8''),
        (''Accept-Language'', JString ''en-US,en;q=0.9''),
        (''Accept-Encoding'', JString ''gzip, deflate, br''),
        (''Referer'', JString referer),
        (''DNT'', JString ''1''),
        (''Connection'', JString ''keep-alive''),
        (''Upgrade-Insecure-Requests'', JString ''1''),
        (''Sec-Fetch-Dest'', JString ''document''),
        (''Sec-Fetch-Mode'', JString ''navigate''),
        (''Sec-Fetch-Site'', JString secFetchSite),
        (''Sec-Fetch-User'', JString ''?1''),
        (''Cache-Control'', JString ''max-age=0'') ] ]\<close>








subsection \<open>The handler (lines 248-785)\<close>

text \<open>
  \<open>new Response(body, init)\<close> throws a RangeError for a status outside 200 to 599, and a
  TypeError for a body that is not \<open>null\<close> with one of the null body statuses 204, 205
  and 304 (101 and 103 are out of the range already). Where it does not throw, a body
  given as a string brings the content type \<open>text/plain;charset=UTF-8\<close> unless the
  headers have one. With the statuses 200, 403 and 502 that the handler writes itself,
  nothing is thrown; \<open>Response_throws\<close> is the condition, and \<open>new_Response\<close> the response
  built where it does not hold. The status text of a response of \<open>fetch\<close> is a reason
  phrase, which the constructor accepts. The body of the target's response is taken to
  be readable.
\<close>

definition Response_throws :: "body \<Rightarrow> nat \<Rightarrow> bool" where
  "Response_throws b st = (st < 200 \<or> 599 < st \<or> (b \<noteq> Null \<and> st \<in> {204, 205, 304}))"



text \<open>
  The request the worker sends: \<open>new Request(targetUrl, {method, headers, body, redirect})\<close>
  of line 594 and \<open>fetch(targetUrl, newRequest)\<close> of line 605. The network answers it in
  one of three ways: the constructor throws (outside the \<open>try\<close>), \<open>fetch\<close> rejects with
  an error of some message, or \<open>fetch\<close> resolves to a response.
\<close>

record Outbound =
  target :: string
  outbound_method :: string
  outbound_headers :: object
  outbound_body :: "string option"


text \<open>What the handler returns, and the request it has sent, if any.\<close>

record Outcome =
  response :: Response
  issued :: "Outbound option"











section \<open>A runtime to compute with\<close>

text \<open>
  The theorems hold for every runtime. Concrete requests are run on the one below, which
  agrees with the standards on the inputs it accepts: hosts of plain ASCII names; patterns
  made of characters, escaped characters, \<open>.\<close>, \<open>^\<close>, \<open>$\<close> and the postfix operators
  \<open>*\<close>, \<open>+\<close>, \<open>?\<close>; and JSON objects and arrays of strings without escapes or white space.
  It rejects everything else. Its \<open>JSON.stringify\<close> is that of the standard on objects of
  strings that need no escape, the only values it is run on.
\<close>

text \<open>On a host of ASCII letters, digits, hyphens and dots that does not end in a digit and
  has no \<open>xn--\<close> in it, the host parser of the standard lower-cases.\<close>

definition plain_host :: "string \<Rightarrow> string option" where
  "plain_host input =
     (if input \<noteq> [] \<and> list_all (\<lambda>c. ascii_alpha c \<or> ascii_digit c \<or> c \<in> set ''-.'') input
         \<and> \<not> ascii_digit (last input) \<and> \<not> String_includes (map ascii_lower input) ''xn--''
      then Some (map ascii_lower input) else None)"

datatype atom = AnyChar | Exactly char

datatype quantifier = Once | Star | Plus | Optional

datatype item = LineStart | LineEnd | Repeat atom quantifier

definition atom_matches :: "atom \<Rightarrow> char \<Rightarrow> bool" where
  "atom_matches a c = (case a of AnyChar \<Rightarrow> c \<noteq> CHR 0x0A \<and> c \<noteq> CHR 0x0D | Exactly d \<Rightarrow> c = d)"

definition syntax_character :: "char \<Rightarrow> bool" where
  "syntax_character c = (c \<in> set ''^$.*+?()[]{}|'' \<or> c = CHR 0x5C)"

definition parse_quantifier :: "string \<Rightarrow> quantifier \<times> string" where
  "parse_quantifier s =
     (case s of
        [] \<Rightarrow> (Once, [])
      | c # cs \<Rightarrow> if c = CHR ''*'' then (Star, cs) else if c = CHR ''+'' then (Plus, cs)
                  else if c = CHR ''?'' then (Optional, cs) else (Once, s))"

fun parse_items :: "nat \<Rightarrow> string \<Rightarrow> item list option" where
  "parse_items fuel [] = Some []"
| "parse_items 0 (c # cs) = None"
| "parse_items (Suc fuel) (c # cs) =
     (if c = CHR ''^'' then map_option ((#) LineStart) (parse_items fuel cs)
      else if c = CHR ''$'' then map_option ((#) LineEnd) (parse_items fuel cs)
      else if c = CHR 0x5C then
        (case cs of
           [] \<Rightarrow> None
         | d # ds \<Rightarrow>
             if ascii_alpha d \<or> ascii_digit d then None
             else map_option ((#) (Repeat (Exactly d) (fst (parse_quantifier ds))))
                    (parse_items fuel (snd (parse_quantifier ds))))
      else if c = CHR ''.'' then
        map_option ((#) (Repeat AnyChar (fst (parse_quantifier cs))))
          (parse_items fuel (snd (parse_quantifier cs)))
      else if syntax_character c then None
      else map_option ((#) (Repeat (Exactly c) (fst (parse_quantifier cs))))
             (parse_items fuel (snd (parse_quantifier cs))))"

fun match_items :: "item list \<Rightarrow> bool \<Rightarrow> string \<Rightarrow> bool" where
  "match_items [] at_start s = True"
| "match_items (LineStart # items) at_start s = (at_start \<and> match_items items at_start s)"
| "match_items (LineEnd # items) at_start s = (s = [] \<and> match_items items at_start s)"
| "match_items (Repeat a Once # items) at_start [] = False"
| "match_items (Repeat a Once # items) at_start (c # cs) =
     (atom_matches a c \<and> match_items items False cs)"
| "match_items (Repeat a Optional # items) at_start [] = match_items items at_start []"
| "match_items (Repeat a Optional # items) at_start (c # cs) =
     (match_items items at_start (c # cs) \<or> (atom_matches a c \<and> match_items items False cs))"
| "match_items (Repeat a Star # items) at_start [] = match_items items at_start []"
| "match_items (Repeat a Star # items) at_start (c # cs) =
     (match_items items at_start (c # cs) \<or>
      (atom_matches a c \<and> match_items (Repeat a Star # items) False cs))"
| "match_items (Repeat a Plus # items) at_start [] = False"
| "match_items (Repeat a Plus # items) at_start (c # cs) =
     (atom_matches a c \<and> match_items (Repeat a Star # items) False cs)"

fun search_items :: "item list \<Rightarrow> bool \<Rightarrow> string \<Rightarrow> bool" where
  "search_items items at_start [] = match_items items at_start []"
| "search_items items at_start (c # cs) =
     (match_items items at_start (c # cs) \<or> search_items items False cs)"

definition plain_RegExp :: "string \<Rightarrow> (string \<Rightarrow> bool) option" where
  "plain_RegExp pattern =
     map_option (\<lambda>items s. search_items items True s) (parse_items (length pattern) pattern)"

text \<open>A quoted string without escapes, and what follows it.\<close>

definition quoted :: "string \<Rightarrow> (string \<times> string) option" where
  "quoted s =
     (case s of
        [] \<Rightarrow> None
      | c # cs \<Rightarrow>
          if c \<noteq> CHR 0x22 then None
          else (let inner = takeWhile (\<lambda>d. d \<noteq> CHR 0x22) cs in
                if length inner = length cs \<or> list_ex (\<lambda>d. d = CHR 0x5C \<or> (of_char d :: nat) < 32) inner
                then None
                else Some (inner, drop (Suc (length inner)) cs)))"

fun members :: "nat \<Rightarrow> string \<Rightarrow> (string \<times> json) list option" where
  "members 0 s = None"
| "members (Suc fuel) s =
     (case quoted s of
        None \<Rightarrow> None
      | Some (k, after_key) \<Rightarrow>
          (case after_key of
             [] \<Rightarrow> None
           | c # cs \<Rightarrow>
               if c \<noteq> CHR '':'' then None
               else (case quoted cs of
                       None \<Rightarrow> None
                     | Some (v, after_value) \<Rightarrow>
                         if after_value = ''}'' then Some [(k, JString v)]
                         else (case after_value of
                                 [] \<Rightarrow> None
                               | d # ds \<Rightarrow>
                                   if d = CHR '','' then map_option ((#) (k, JString v)) (members fuel ds)
                                   else None))))"

fun elements :: "nat \<Rightarrow> string \<Rightarrow> json list option" where
  "elements 0 s = None"
| "elements (Suc fuel) s =
     (case quoted s of
        None \<Rightarrow> None
      | Some (v, after_value) \<Rightarrow>
          if after_value = '']'' then Some [JString v]
          else (case after_value of
                  [] \<Rightarrow> None
                | d # ds \<Rightarrow>
                    if d = CHR '','' then map_option ((#) (JString v)) (elements fuel ds)
                    else None))"

definition plain_JSON_parse :: "string \<Rightarrow> json option" where
  "plain_JSON_parse text =
     (if text = ''{}'' then Some (JObject [])
      else if text = ''[]'' then Some (JArray [])
      else (case text of
              [] \<Rightarrow> None
            | c # cs \<Rightarrow>
                if c = CHR ''{''
                then map_option (\<lambda>kvs. JObject (Object_fromEntries kvs)) (members (length cs) cs)
                else if c = CHR ''[''
                then map_option JArray (elements (length cs) cs)
                else None))"

definition plain_JSON_stringify :: "json \<Rightarrow> string" where
  "plain_JSON_stringify j =
     (case j of
        JObject kvs \<Rightarrow>
          ''{'' @ join '','' (map (\<lambda>kv. [CHR 0x22] @ fst kv @ [CHR 0x22] @ '':'' @
                          (case snd kv of JString v \<Rightarrow> [CHR 0x22] @ v @ [CHR 0x22] | _ \<Rightarrow> ''null'')) kvs)
          @ ''}''
      | _ \<Rightarrow> ''null'')"

definition plain_runtime :: runtime where
  "plain_runtime = \<lparr> host_parser = plain_host, RegExp = plain_RegExp,
                     JSON_parse = plain_JSON_parse, JSON_stringify = plain_JSON_stringify,
                     constructor_message = (\<lambda>st. ''Response with null body status cannot have body'') \<rparr>"

text \<open>A request to the worker at \<open>https://proxy.example/?query\<close>.\<close>

definition request_to :: "string \<Rightarrow> string \<Rightarrow> Headers \<Rightarrow> Request" where
  "request_to m q hs =
     \<lparr> method = m,
       url = \<lparr> scheme = ''https'', username = [], password = [], host = ''proxy.example'',
               port = None, path = [[]], query = Some q, fragment = None \<rparr>,
       headers = hs, body = None \<rparr>"


section \<open>Verified properties\<close>

subsection \<open>Fingerprint selection\<close>

lemma word_of_int_shl32: "(word_of_int (shl32 x 5) :: 32 word) = word_of_int x * 32"
  by (simp add: shl32_def push_bit_eq_mult)

lemma word_of_int_hash_step:
  "(word_of_int (hash_step h c) :: 32 word) = word_of_int h * 31 + of_nat (of_char c)"
proof -
  have "(word_of_int (hash_step h c) :: 32 word)
      = word_of_int (shl32 h 5) - word_of_int h + of_nat (of_char c)"
    by (simp add: hash_step_def)
  also have "\<dots> = word_of_int h * 32 - word_of_int h + of_nat (of_char c)"
    by (simp only: word_of_int_shl32)
  also have "\<dots> = word_of_int h * 31 + of_nat (of_char c)"
    by (simp add: algebra_simps)
  finally show ?thesis .
qed

lemma word_of_int_foldl_hash_step:
  "(word_of_int (foldl hash_step a t) :: 32 word)
     = foldl (\<lambda>h c. h * 31 + of_nat (of_char c)) (word_of_int a) t"
  by (induction t arbitrary: a) (simp_all add: word_of_int_hash_step)

lemma url_hash_congruent: "word_of_int (url_hash t) = hash32_spec t"
  by (simp add: url_hash_def hash32_spec_def word_of_int_foldl_hash_step)

lemma sint_hash32_spec_in_range:
  assumes "- (2 ^ 31) \<le> url_hash t" "url_hash t < 2 ^ 31"
  shows "sint (hash32_spec t) = url_hash t"
proof -
  have "sint (word_of_int (url_hash t) :: 32 word) = url_hash t"
    using assms by (simp add: sint_sbintrunc' signed_take_bit_int_eq_self)
  then show ?thesis by (simp add: url_hash_congruent)
qed

text \<open>
  Claim C7, as stated: the selected index is the absolute value of the 32-bit wrapped hash
  \<open>hash * 31 + charCode\<close> modulo 4. It fails for the target \<open>https://example.com/\<close>:
  the worker truncates only the shift \<open>hash << 5\<close> to 32 bits, never the running hash,
  which reaches 2438468897 and selects profile 1, where the wrapped hash is -1856498399
  and selects profile 3.
\<close>

theorem fingerprintIndex_not_wrapped_hash:
  "fingerprintIndex ''https://example.com/'' = 1 \<and>
   select_index_spec ''https://example.com/'' = 3 \<and>
   url_hash ''https://example.com/'' = 2438468897 \<and>
   sint (hash32_spec ''https://example.com/'') = - 1856498399"
  by code_simp

text \<open>
  Claim C7, amended: the selection is a function of the target URL alone; the index is
  the absolute value, modulo 4, of the hash computed by
  \<open>hash = int32(hash << 5) - hash + charCode\<close> in which only the shift is truncated to
  32 bits; it is always an index into the table of four profiles; the hash is congruent
  modulo \<open>2^32\<close> to the wrapped hash \<open>hash * 31 + charCode\<close>; and the index is the one
  of the claim whenever the hash stays in the signed 32-bit range.
\<close>

theorem fingerprintIndex_selection:
  "(t = t' \<longrightarrow> fingerprintIndex t = fingerprintIndex t') \<and>
   fingerprintIndex t = nat (\<bar>foldl hash_step 0 t\<bar> mod 4) \<and>
   length (browserFingerprints referer secFetchSite) = 4 \<and>
   fingerprintIndex t < length (browserFingerprints referer secFetchSite) \<and>
   (word_of_int (url_hash t) :: 32 word) = hash32_spec t \<and>
   (- (2 ^ 31) \<le> url_hash t \<and> url_hash t < 2 ^ 31 \<longrightarrow>
      fingerprintIndex t = select_index_spec t)"
proof -
  have table: "length (browserFingerprints referer secFetchSite) = 4"
    by (simp add: browserFingerprints_def)
  have index: "fingerprintIndex t < 4"
    by (simp add: fingerprintIndex_def)
  have range: "- (2 ^ 31) \<le> url_hash t \<and> url_hash t < 2 ^ 31 \<longrightarrow>
      fingerprintIndex t = select_index_spec t"
    using sint_hash32_spec_in_range [of t]
    by (simp add: fingerprintIndex_def select_index_spec_def)
  from table index range url_hash_congruent [of t] show ?thesis
    by (simp add: fingerprintIndex_def url_hash_def)
qed

theorem fingerprintIndex_selection_witness:
  "- (2 ^ 31) \<le> url_hash ''https://a/'' \<and> url_hash ''https://a/'' < 2 ^ 31 \<and>
   fingerprintIndex ''https://a/'' = select_index_spec ''https://a/'' \<and>
   fingerprintIndex ''https://a/'' = 1"
proof -
  have h: "url_hash ''https://a/'' = 1797209853"
    by code_simp
  have i: "fingerprintIndex ''https://a/'' = 1"
    by code_simp
  have r: "- (2 ^ 31) \<le> url_hash ''https://a/'' \<and> url_hash ''https://a/'' < 2 ^ 31"
    by (simp only: h) simp
  from r fingerprintIndex_selection [where t = "''https://a/''" and t' = "''https://a/''"
      and referer = "[]" and secFetchSite = "[]"]
  have "fingerprintIndex ''https://a/'' = select_index_spec ''https://a/''" by blast
  with r i show ?thesis by blast
qed

subsection \<open>The scheme of a parsed URL\<close>

lemma istartsWith_Cons:
  "istartsWith s (p # ps) \<longleftrightarrow> (\<exists>c cs. s = c # cs \<and> ascii_lower c = p \<and> istartsWith cs ps)"
  by (cases s) (auto simp: istartsWith_def)

lemma of_char_ascii_lower:
  "(of_char (ascii_lower c) :: nat) =
     (if 65 \<le> (of_char c :: nat) \<and> (of_char c :: nat) \<le> 90 then of_char c + 32 else of_char c)"
  by (simp add: ascii_lower_def Let_def)

lemma ascii_lower_letter:
  assumes "ascii_lower c = d" "97 \<le> (of_char d :: nat)" "(of_char d :: nat) \<le> 122"
  shows "ascii_alpha c \<and> scheme_char c \<and> \<not> C0_control_or_space c \<and> \<not> tab_or_newline c"
proof -
  have "(of_char (ascii_lower c) :: nat) = of_char d" using assms(1) by simp
  then show ?thesis using assms(2,3)
    by (auto simp: of_char_ascii_lower ascii_alpha_def scheme_char_def C0_control_or_space_def
        tab_or_newline_def Let_def split: if_splits)
qed

lemma ascii_lower_other:
  assumes "ascii_lower c = d" "(of_char d :: nat) < 65"
  shows "c = d"
proof -
  have "(of_char (ascii_lower c) :: nat) = of_char d" using assms(1) by simp
  then have "(of_char c :: nat) = of_char d" using assms(2)
    by (auto simp: of_char_ascii_lower split: if_splits)
  then show ?thesis by simp
qed

lemma trim_end_Cons:
  "trim_end (c # cs) = (if trim_end cs = [] \<and> C0_control_or_space c then [] else c # trim_end cs)"
  by (auto simp: trim_end_def dropWhile_append)

lemma clean_Cons:
  "\<not> C0_control_or_space c \<Longrightarrow> \<not> tab_or_newline c \<Longrightarrow> clean (c # cs) = c # clean cs"
  by (simp add: clean_def trim_end_Cons)

lemma preprocess_Cons:
  "\<not> C0_control_or_space c \<Longrightarrow> \<not> tab_or_newline c \<Longrightarrow> preprocess (c # cs) = c # clean cs"
  by (simp add: preprocess_def trim_start_def trim_end_Cons clean_def)

lemma colon_no_scheme_char: "\<not> scheme_char CHR '':''"
  by (simp add: scheme_char_def ascii_alpha_def ascii_digit_def)

lemma colon_plain: "\<not> C0_control_or_space CHR '':'' \<and> \<not> tab_or_newline CHR '':''"
  by (simp add: C0_control_or_space_def tab_or_newline_def)

lemma parse_scheme_http:
  assumes "istartsWith s ''http://''"
  shows "\<exists>rest. parse_scheme (preprocess s) = Some (''http'', rest)"
proof -
  from assms obtain c1 c2 c3 c4 c5 r where s: "s = c1 # c2 # c3 # c4 # c5 # r"
    and l: "ascii_lower c1 = CHR ''h''" "ascii_lower c2 = CHR ''t''"
           "ascii_lower c3 = CHR ''t''" "ascii_lower c4 = CHR ''p''"
           "ascii_lower c5 = CHR '':''"
    by (auto simp: istartsWith_Cons)
  have c5: "c5 = CHR '':''" using l(5) by (rule ascii_lower_other) simp
  note p = ascii_lower_letter [OF l(1)] ascii_lower_letter [OF l(2)]
           ascii_lower_letter [OF l(3)] ascii_lower_letter [OF l(4)]
  have "preprocess s = c1 # c2 # c3 # c4 # CHR '':'' # clean r"
    using p by (simp add: s c5 preprocess_Cons clean_Cons colon_plain)
  then show ?thesis
    using p l by (simp add: parse_scheme_def colon_no_scheme_char)
qed

lemma parse_scheme_https:
  assumes "istartsWith s ''https://''"
  shows "\<exists>rest. parse_scheme (preprocess s) = Some (''https'', rest)"
proof -
  from assms obtain c1 c2 c3 c4 c5 c6 r where s: "s = c1 # c2 # c3 # c4 # c5 # c6 # r"
    and l: "ascii_lower c1 = CHR ''h''" "ascii_lower c2 = CHR ''t''"
           "ascii_lower c3 = CHR ''t''" "ascii_lower c4 = CHR ''p''"
           "ascii_lower c5 = CHR ''s''" "ascii_lower c6 = CHR '':''"
    by (auto simp: istartsWith_Cons)
  have c6: "c6 = CHR '':''" using l(6) by (rule ascii_lower_other) simp
  note p = ascii_lower_letter [OF l(1)] ascii_lower_letter [OF l(2)]
           ascii_lower_letter [OF l(3)] ascii_lower_letter [OF l(4)]
           ascii_lower_letter [OF l(5)]
  have "preprocess s = c1 # c2 # c3 # c4 # c5 # CHR '':'' # clean r"
    using p by (simp add: s c6 preprocess_Cons clean_Cons colon_plain)
  then show ?thesis
    using p l by (simp add: parse_scheme_def colon_no_scheme_char)
qed

lemma parse_special_scheme: "parse_special rt sch r = Some u \<Longrightarrow> scheme u = sch"
  by (auto simp: parse_special_def Let_def split: option.splits if_splits)

lemma URL_parse_http:
  "istartsWith s ''http://'' \<Longrightarrow> URL_parse rt s = Some u \<Longrightarrow> scheme u = ''http''"
  using parse_scheme_http [of s]
  by (auto simp: URL_parse_def split: option.splits if_splits dest: parse_special_scheme)

lemma URL_parse_https:
  "istartsWith s ''https://'' \<Longrightarrow> URL_parse rt s = Some u \<Longrightarrow> scheme u = ''https''"
  using parse_scheme_https [of s]
  by (auto simp: URL_parse_def split: option.splits if_splits dest: parse_special_scheme)

lemma href_scheme: "startsWith (href u) (scheme u @ ''://'')"
  by (simp add: href_def startsWith_def)

lemma href_http:
  assumes "match_http_scheme s" "URL_parse rt s = Some u"
  shows "startsWith (href u) ''http://'' \<or> startsWith (href u) ''https://''"
proof -
  from assms have "scheme u = ''http'' \<or> scheme u = ''https''"
    by (auto simp: match_http_scheme_def dest: URL_parse_http URL_parse_https)
  then show ?thesis using href_scheme [of u] by auto
qed

lemma istartsWith_literal: "istartsWith (''https://'' @ t) ''https://''"
  by (simp add: istartsWith_def ascii_lower_def)

lemma match_with_scheme: "match_http_scheme (with_scheme t)"
  using istartsWith_literal [of t] by (auto simp: with_scheme_def match_http_scheme_def)
subsection \<open>Decoding never yields the empty string\<close>

lemma escapes_nonempty: "escapes s = Some ts \<Longrightarrow> s \<noteq> [] \<Longrightarrow> ts \<noteq> []"
  by (cases s) (auto split: if_splits list.splits option.splits)

lemma decode_tokens_nonempty: "decode_tokens ts = Some d \<Longrightarrow> ts \<noteq> [] \<Longrightarrow> d \<noteq> []"
  by (cases ts rule: decode_tokens.cases) (auto simp: Let_def split: if_splits option.splits)

lemma decodeURIComponent_nonempty: "decodeURIComponent s = Some d \<Longrightarrow> s \<noteq> [] \<Longrightarrow> d \<noteq> []"
  by (auto simp: decodeURIComponent_def split: option.splits
      dest: escapes_nonempty decode_tokens_nonempty)

lemma decode_search_nonempty: "s \<noteq> [] \<Longrightarrow> decode_search s \<noteq> []"
  by (auto simp: decode_search_def decode_catch_def split: option.splits
      dest: decodeURIComponent_nonempty)

lemma decode_search_cases:
  "decode_search s =
     (case decodeURIComponent s of
        None \<Rightarrow> s
      | Some once \<Rightarrow>
          if \<not> String_includes once ''%'' then once
          else (case decodeURIComponent once of
                  Some twice \<Rightarrow> twice
                | None \<Rightarrow> if match_encoded_http_scheme s \<or> match_http_scheme s then once else s))"
  by (simp add: decode_search_def decode_catch_def split: option.splits)

subsection \<open>The candidate is never the empty string\<close>

lemma match_http_scheme_nonempty: "match_http_scheme s \<Longrightarrow> s \<noteq> []"
  by (auto simp: match_http_scheme_def istartsWith_def)

lemma target_candidate_nonempty: "target_candidate u \<noteq> Some []"
proof
  assume a: "target_candidate u = Some []"
  let ?t = "searchParams_get (searchParams u) ''url''"
  let ?s = "drop 1 (search u)"
  show False
  proof (cases "\<not> truthy ?t \<and> startsWith (search u) ''?'' \<and> ?s \<noteq> []")
    case True
    then show ?thesis using a decode_search_nonempty [of ?s]
      by (auto simp: target_candidate_def Let_def truthy_def split: if_splits option.splits)
  next
    case False
    then have "target_candidate u = ?t"
      by (auto simp: target_candidate_def Let_def)
    with a have t: "?t = Some []" by simp
    then have "searchParams u \<noteq> []"
      by (auto simp: searchParams_get_def)
    then obtain q where q: "query u = Some q" and p: "urlencoded_parse q \<noteq> []"
      by (cases "query u") (auto simp: searchParams_def)
    from p have "q \<noteq> []" by (auto simp: urlencoded_parse_def)
    with q have "startsWith (search u) ''?'' \<and> ?s \<noteq> []"
      by (simp add: search_def startsWith_def)
    with False t show False by (simp add: truthy_def)
  qed
qed

subsection \<open>Target resolution\<close>

text \<open>
  Claim C3: a candidate that does not start with \<open>http://\<close> or \<open>https://\<close>, in any case
  of the letters, is given the prefix \<open>https://\<close> before the URL constructor validates
  it; the resolved target is \<open>null\<close> exactly when there is no candidate or the
  constructor throws, and otherwise it is the serialised URL, which starts with
  \<open>http://\<close> or \<open>https://\<close>.
\<close>

theorem target_normalization:
  "(target_candidate u = None \<longrightarrow> resolve_target rt u = None) \<and>
   (target_candidate u = Some t \<and> \<not> match_http_scheme t \<longrightarrow>
      resolve_target rt u = map_option href (URL_parse rt (''https://'' @ t))) \<and>
   (target_candidate u = Some t \<and> match_http_scheme t \<longrightarrow>
      resolve_target rt u = map_option href (URL_parse rt t)) \<and>
   (resolve_target rt u = None \<or>
    (\<exists>h. resolve_target rt u = Some h \<and>
         (startsWith h ''http://'' \<or> startsWith h ''https://'')))"
proof -
  have n: "target_candidate u \<noteq> Some []" by (rule target_candidate_nonempty)
  have a: "target_candidate u = None \<longrightarrow> resolve_target rt u = None"
    by (simp add: resolve_target_def validate_target_def)
  have b: "target_candidate u = Some t \<longrightarrow>
      resolve_target rt u = map_option href (URL_parse rt (with_scheme t))"
    using n by (auto simp: resolve_target_def validate_target_def split: option.splits)
  have c: "resolve_target rt u = None \<or>
    (\<exists>h. resolve_target rt u = Some h \<and> (startsWith h ''http://'' \<or> startsWith h ''https://''))"
  proof (cases "target_candidate u")
    case None
    then show ?thesis by (simp add: resolve_target_def validate_target_def)
  next
    case (Some c)
    with n have "c \<noteq> []" by auto
    then have r: "resolve_target rt u = map_option href (URL_parse rt (with_scheme c))"
      using Some by (auto simp: resolve_target_def validate_target_def split: option.splits)
    show ?thesis
    proof (cases "URL_parse rt (with_scheme c)")
      case None
      with r show ?thesis by simp
    next
      case (Some v)
      from href_http [OF match_with_scheme Some] r Some show ?thesis by simp
    qed
  qed
  from a b c show ?thesis by (simp add: with_scheme_def)
qed

theorem target_normalization_witness:
  "target_candidate (url (request_to ''GET'' ''api.example.com/data'' [])) = Some ''api.example.com/data'' \<and>
   \<not> match_http_scheme ''api.example.com/data'' \<and>
   resolve_target plain_runtime (url (request_to ''GET'' ''api.example.com/data'' []))
     = Some ''https://api.example.com/data'' \<and>
   target_candidate (url (request_to ''GET'' ''url=HTTP://Example.com'' [])) = Some ''HTTP://Example.com'' \<and>
   match_http_scheme ''HTTP://Example.com'' \<and>
   resolve_target plain_runtime (url (request_to ''GET'' ''url=HTTP://Example.com'' []))
     = Some ''http://example.com/'' \<and>
   target_candidate (url (request_to ''GET'' [] [])) = None \<and>
   resolve_target plain_runtime (url (request_to ''GET'' [] [])) = None"
proof -
  let ?u = "url (request_to ''GET'' ''api.example.com/data'' [])"
  let ?v = "url (request_to ''GET'' ''url=HTTP://Example.com'' [])"
  let ?w = "url (request_to ''GET'' [] [])"
  have a: "target_candidate ?u = Some ''api.example.com/data''" by code_simp
  have b: "\<not> match_http_scheme ''api.example.com/data''" by code_simp
  have c: "map_option href (URL_parse plain_runtime (''https://'' @ ''api.example.com/data''))
             = Some ''https://api.example.com/data''" by code_simp
  have d: "target_candidate ?v = Some ''HTTP://Example.com''" by code_simp
  have e: "match_http_scheme ''HTTP://Example.com''" by code_simp
  have f: "map_option href (URL_parse plain_runtime ''HTTP://Example.com'')
             = Some ''http://example.com/''" by code_simp
  have g: "target_candidate ?w = None" by code_simp
  from a b c target_normalization [where u = ?u and t = "''api.example.com/data''" and rt = plain_runtime]
  have 1: "resolve_target plain_runtime ?u = Some ''https://api.example.com/data''" by simp
  from d e f target_normalization [where u = ?v and t = "''HTTP://Example.com''" and rt = plain_runtime]
  have 2: "resolve_target plain_runtime ?v = Some ''http://example.com/''" by simp
  from g target_normalization [where u = ?w and t = "[]" and rt = plain_runtime]
  have 3: "resolve_target plain_runtime ?w = None" by simp
  from a b d e g 1 2 3 show ?thesis by simp
qed

text \<open>
  Claim C10, as stated: a candidate with a scheme other than \<open>http\<close> or \<open>https\<close> is
  accepted as it is and keeps its scheme. It fails for \<open>ftp://host/path\<close>, which the URL
  constructor alone would accept with its scheme: the worker has put \<open>https://\<close> before
  it, and the resolved target is \<open>https://ftp//host/path\<close>.
\<close>

theorem other_scheme_not_preserved:
  "map_option href (URL_parse plain_runtime ''ftp://host/path'') = Some ''ftp://host/path'' \<and>
   target_candidate (url (request_to ''GET'' ''url=ftp://host/path'' [])) = Some ''ftp://host/path'' \<and>
   resolve_target plain_runtime (url (request_to ''GET'' ''url=ftp://host/path'' []))
     = Some ''https://ftp//host/path''"
  by code_simp

text \<open>
  Claim C10, amended: a candidate that does not start with \<open>http://\<close> or \<open>https://\<close>,
  whatever its scheme, is validated with \<open>https://\<close> before it, and the resolved target
  is \<open>null\<close> or starts with \<open>https://\<close>: the scheme of the candidate is not kept.
\<close>

theorem other_scheme_prefixed:
  "target_candidate u = Some t \<and> \<not> match_http_scheme t \<longrightarrow>
     resolve_target rt u = map_option href (URL_parse rt (''https://'' @ t)) \<and>
     (\<forall>h. resolve_target rt u = Some h \<longrightarrow> startsWith h ''https://'')"
proof (intro impI, elim conjE)
  assume c: "target_candidate u = Some t" and m: "\<not> match_http_scheme t"
  from c target_candidate_nonempty [of u] have "t \<noteq> []" by auto
  with c m have r: "resolve_target rt u = map_option href (URL_parse rt (''https://'' @ t))"
    by (simp add: resolve_target_def validate_target_def with_scheme_def split: option.splits)
  have "startsWith h ''https://''" if "resolve_target rt u = Some h" for h
  proof -
    from that r obtain v where v: "URL_parse rt (''https://'' @ t) = Some v" and h: "h = href v"
      by auto
    from URL_parse_https [OF istartsWith_literal v] have "scheme v = ''https''" .
    with href_scheme [of v] h show ?thesis by simp
  qed
  with r show "resolve_target rt u = map_option href (URL_parse rt (''https://'' @ t)) \<and>
     (\<forall>h. resolve_target rt u = Some h \<longrightarrow> startsWith h ''https://'')" by blast
qed

theorem other_scheme_prefixed_witness:
  "target_candidate (url (request_to ''GET'' ''ftp://host/path'' [])) = Some ''ftp://host/path'' \<and>
   \<not> match_http_scheme ''ftp://host/path'' \<and>
   resolve_target plain_runtime (url (request_to ''GET'' ''ftp://host/path'' []))
     = Some ''https://ftp//host/path'' \<and>
   startsWith ''https://ftp//host/path'' ''https://''"
proof -
  let ?u = "url (request_to ''GET'' ''ftp://host/path'' [])"
  have a: "target_candidate ?u = Some ''ftp://host/path''" by code_simp
  have b: "\<not> match_http_scheme ''ftp://host/path''" by code_simp
  have c: "map_option href (URL_parse plain_runtime (''https://'' @ ''ftp://host/path''))
             = Some ''https://ftp//host/path''" by code_simp
  from a b c other_scheme_prefixed [where u = ?u and t = "''ftp://host/path''" and rt = plain_runtime]
  have r: "resolve_target plain_runtime ?u = Some ''https://ftp//host/path''"
    and s: "\<forall>h. resolve_target plain_runtime ?u = Some h \<longrightarrow> startsWith h ''https://''"
    by simp_all
  from s r have "startsWith ''https://ftp//host/path'' ''https://''" by blast
  with a b r show ?thesis by simp
qed

text \<open>
  Claim C9, as stated: when a decoding fails, the candidate is the previous level of
  decoding. It fails for the query \<open>a%25zz\<close>: the first decoding gives \<open>a%zz\<close>, the second
  throws, and the worker keeps the raw \<open>a%25zz\<close>, not \<open>a%zz\<close>, since the raw string does
  not look like a URL.
\<close>

theorem decode_failure_not_previous_level:
  "decodeURIComponent ''a%25zz'' = Some ''a%zz'' \<and>
   decodeURIComponent ''a%zz'' = None \<and>
   progressive_decode_spec ''a%25zz'' = ''a%zz'' \<and>
   decode_search ''a%25zz'' = ''a%25zz'' \<and>
   target_candidate (url (request_to ''GET'' ''a%25zz'' [])) = Some ''a%25zz''"
  by code_simp

text \<open>
  Claim C9, amended: where no candidate was reconstructed from a non-empty legacy query
  string, the worker decodes it once and, if a \<open>%\<close> is left, a second time. If the first
  decoding fails the candidate is the raw string. If the second fails, the candidate is
  the string decoded once when the raw string starts with \<open>http://\<close>, \<open>https://\<close>,
  \<open>http%3A%2F%2F\<close> or \<open>https%3A%2F%2F\<close> in any case of the letters, and the raw string
  otherwise. No case throws, and the candidate is never empty.
\<close>

theorem progressive_decoding:
  "decode_search s =
     (case decodeURIComponent s of
        None \<Rightarrow> s
      | Some once \<Rightarrow>
          if \<not> String_includes once ''%'' then once
          else (case decodeURIComponent once of
                  Some twice \<Rightarrow> twice
                | None \<Rightarrow> if match_encoded_http_scheme s \<or> match_http_scheme s then once else s)) \<and>
   (match_encoded_http_scheme s \<or> match_http_scheme s \<longrightarrow>
      decode_search s = progressive_decode_spec s) \<and>
   (s \<noteq> [] \<longrightarrow> decode_search s \<noteq> []) \<and>
   (searchParams_get (searchParams u) ''url'' = None \<and> search u = ''?'' @ s \<and> s \<noteq> [] \<and>
    reconstruction u s None = None \<longrightarrow> target_candidate u = Some (decode_search s))"
proof -
  have a: "match_encoded_http_scheme s \<or> match_http_scheme s \<longrightarrow>
      decode_search s = progressive_decode_spec s"
    by (auto simp: decode_search_cases progressive_decode_spec_def split: option.splits)
  have b: "searchParams_get (searchParams u) ''url'' = None \<and> search u = ''?'' @ s \<and> s \<noteq> [] \<and>
    reconstruction u s None = None \<longrightarrow> target_candidate u = Some (decode_search s)"
    by (simp add: target_candidate_def Let_def truthy_def startsWith_def)
  from a b decode_search_nonempty [of s] show ?thesis
    by (simp only: decode_search_cases [symmetric]) simp
qed

theorem progressive_decoding_witness:
  "match_http_scheme ''https://x/?a=100%25'' \<and>
   decodeURIComponent ''https://x/?a=100%25'' = Some ''https://x/?a=100%'' \<and>
   decodeURIComponent ''https://x/?a=100%'' = None \<and>
   decode_search ''https://x/?a=100%25'' = progressive_decode_spec ''https://x/?a=100%25'' \<and>
   target_candidate (url (request_to ''GET'' ''https://x/?a=100%25'' [])) = Some ''https://x/?a=100%''"
proof -
  let ?s = "''https://x/?a=100%25''"
  let ?u = "url (request_to ''GET'' ?s [])"
  have a: "match_http_scheme ?s" by code_simp
  have b: "decodeURIComponent ?s = Some ''https://x/?a=100%''" by code_simp
  have c: "decodeURIComponent ''https://x/?a=100%'' = None" by code_simp
  have d: "String_includes ''https://x/?a=100%'' ''%''" by code_simp
  have e: "searchParams_get (searchParams ?u) ''url'' = None" by code_simp
  have f: "search ?u = ''?'' @ ?s" by code_simp
  have g: "reconstruction ?u ?s None = None" by code_simp
  note t = progressive_decoding [where s = ?s and u = ?u]
  from t a have 1: "decode_search ?s = progressive_decode_spec ?s" by blast
  from t b c d a have 2: "decode_search ?s = ''https://x/?a=100%''" by simp
  from t e f g have "target_candidate ?u = Some (decode_search ?s)" by simp
  with 2 have 3: "target_candidate ?u = Some ''https://x/?a=100%''" by simp
  from a b c 1 3 show ?thesis by simp
qed

subsection \<open>Legacy query reconstruction\<close>

lemma join_Cons: "join sep (x # xs) = x @ concat (map (\<lambda>y. sep @ y) xs)"
  by (induction xs arbitrary: x) simp_all

lemma reconstruct_step:
  "reconstruct params (key # keys) acc =
     reconstruct params keys ((if acc \<noteq> [] then acc @ ''/'' else acc) @ key_piece params key)"
  by (simp add: key_piece_def Let_def split: option.splits)

lemma reconstruct_from:
  "acc \<noteq> [] \<Longrightarrow>
   reconstruct params keys acc = acc @ concat (map (\<lambda>k. ''/'' @ key_piece params k) keys)"
proof (induction keys arbitrary: acc)
  case Nil
  then show ?case by simp
next
  case (Cons key keys)
  have "reconstruct params (key # keys) acc
          = reconstruct params keys (acc @ ''/'' @ key_piece params key)"
    using Cons.prems by (simp only: reconstruct_step) simp
  also have "\<dots> = (acc @ ''/'' @ key_piece params key)
                    @ concat (map (\<lambda>k. ''/'' @ key_piece params k) keys)"
    by (rule Cons.IH) (use Cons.prems in simp)
  finally show ?case by simp
qed

lemma reconstruct_join:
  "reconstruct params keys [] =
     join ''/'' (dropWhile (\<lambda>p. p = []) (map (key_piece params) keys))"
proof (induction keys)
  case Nil
  then show ?case by simp
next
  case (Cons key keys)
  show ?case
  proof (cases "key_piece params key = []")
    case True
    then show ?thesis using Cons.IH by (simp only: reconstruct_step) simp
  next
    case False
    then have "reconstruct params (key # keys) []
                 = key_piece params key @ concat (map (\<lambda>k. ''/'' @ key_piece params k) keys)"
      by (simp only: reconstruct_step) (simp add: reconstruct_from)
    with False show ?thesis by (simp add: join_Cons comp_def)
  qed
qed

text \<open>
  Claim C8, as stated: the reconstruction is the keys joined by \<open>/\<close>. It fails for the
  query \<open>=&https://x.y/\<close>, whose first pair has an empty key and an empty value: joined by
  \<open>/\<close> the keys give \<open>/https://x.y/\<close>, which is no URL, so that the candidate would come
  from decoding; the worker adds no \<open>/\<close> while what it has built is empty, reconstructs
  \<open>https://x.y/\<close> and accepts it.
\<close>

theorem reconstruction_not_joined:
  "searchParams_get (searchParams (url (request_to ''GET'' ''=&https://x.y/'' []))) ''url'' = None \<and>
   searchParams_keys (searchParams (url (request_to ''GET'' ''=&https://x.y/'' [])))
     = [[], ''https://x.y/''] \<and>
   reconstruction_spec (searchParams (url (request_to ''GET'' ''=&https://x.y/'' [])))
     = ''/https://x.y/'' \<and>
   \<not> match_http_scheme ''/https://x.y/'' \<and>
   decode_search ''=&https://x.y/'' = ''=&https://x.y/'' \<and>
   target_candidate (url (request_to ''GET'' ''=&https://x.y/'' [])) = Some ''https://x.y/''"
  by code_simp

text \<open>
  Claim C8, amended: for a request without a \<open>url\<close> parameter and with a non-empty query
  string, if more than one key was parsed, or one key and the string has no \<open>=\<close>, the
  worker concatenates the keys, each followed by \<open>=value\<close> when the first value of that
  key is not empty, with a \<open>/\<close> before every key that follows a non-empty beginning:
  that is, joined by \<open>/\<close> once the leading keys that are empty and without value are
  left out, and joined by \<open>/\<close> as they are when the first key or its value is not empty.
  The result is the candidate only if it matches \<open>^https?://\<close> in any case of the
  letters; otherwise, and when the condition on the keys fails, the candidate comes from
  decoding the query string, which is therefore attempted second.
\<close>

theorem legacy_reconstruction:
  "searchParams_get (searchParams u) ''url'' = None \<and> search u = ''?'' @ s \<and> s \<noteq> [] \<longrightarrow>
     target_candidate u =
       (if (1 < length (searchParams_keys (searchParams u)) \<or>
            (length (searchParams_keys (searchParams u)) = 1 \<and> \<not> String_includes s ''=''))
           \<and> match_http_scheme
                (join ''/'' (dropWhile (\<lambda>p. p = [])
                   (map (key_piece (searchParams u)) (searchParams_keys (searchParams u)))))
        then Some (join ''/'' (dropWhile (\<lambda>p. p = [])
                   (map (key_piece (searchParams u)) (searchParams_keys (searchParams u)))))
        else Some (decode_search s)) \<and>
     (\<forall>key keys. searchParams_keys (searchParams u) = key # keys \<and>
          key_piece (searchParams u) key \<noteq> [] \<longrightarrow>
        join ''/'' (dropWhile (\<lambda>p. p = [])
           (map (key_piece (searchParams u)) (searchParams_keys (searchParams u))))
        = reconstruction_spec (searchParams u))"
proof (intro impI, elim conjE)
  assume a: "searchParams_get (searchParams u) ''url'' = None"
    and b: "search u = ''?'' @ s" and c: "s \<noteq> []"
  let ?keys = "searchParams_keys (searchParams u)"
  let ?r = "join ''/'' (dropWhile (\<lambda>p. p = []) (map (key_piece (searchParams u)) ?keys))"
  have r: "reconstruct (searchParams u) ?keys [] = ?r"
    by (rule reconstruct_join)
  have 1: "target_candidate u =
       (if (1 < length ?keys \<or> (length ?keys = 1 \<and> \<not> String_includes s ''=''))
           \<and> match_http_scheme ?r
        then Some ?r else Some (decode_search s))"
    using a b c match_http_scheme_nonempty [of ?r]
    by (auto simp: target_candidate_def reconstruction_def Let_def truthy_def startsWith_def r)
  have 2: "\<forall>key keys. ?keys = key # keys \<and> key_piece (searchParams u) key \<noteq> [] \<longrightarrow>
       ?r = reconstruction_spec (searchParams u)"
    by (auto simp: reconstruction_spec_def)
  from 1 2 show "target_candidate u =
       (if (1 < length ?keys \<or> (length ?keys = 1 \<and> \<not> String_includes s ''=''))
           \<and> match_http_scheme ?r
        then Some ?r else Some (decode_search s)) \<and>
     (\<forall>key keys. ?keys = key # keys \<and> key_piece (searchParams u) key \<noteq> [] \<longrightarrow>
        ?r = reconstruction_spec (searchParams u))" by blast
qed

theorem legacy_reconstruction_witness:
  "searchParams_get (searchParams (url (request_to ''GET'' ''https://api.example.com/a?x=1&y=2'' []))) ''url'' = None \<and>
   searchParams_keys (searchParams (url (request_to ''GET'' ''https://api.example.com/a?x=1&y=2'' [])))
     = [''https://api.example.com/a?x'', ''y''] \<and>
   reconstruction_spec (searchParams (url (request_to ''GET'' ''https://api.example.com/a?x=1&y=2'' [])))
     = ''https://api.example.com/a?x=1/y=2'' \<and>
   target_candidate (url (request_to ''GET'' ''https://api.example.com/a?x=1&y=2'' []))
     = Some ''https://api.example.com/a?x=1/y=2'' \<and>
   target_candidate (url (request_to ''GET'' ''example.com/a&b'' [])) = Some ''example.com/a&b''"
proof -
  let ?s = "''https://api.example.com/a?x=1&y=2''"
  let ?u = "url (request_to ''GET'' ?s [])"
  let ?t = "''example.com/a&b''"
  let ?v = "url (request_to ''GET'' ?t [])"
  have a: "searchParams_get (searchParams ?u) ''url'' = None" by code_simp
  have b: "search ?u = ''?'' @ ?s" by code_simp
  have k: "searchParams_keys (searchParams ?u) = [''https://api.example.com/a?x'', ''y'']"
    by code_simp
  have p: "key_piece (searchParams ?u) ''https://api.example.com/a?x'' \<noteq> []"
    by (simp add: key_piece_def)
  have s: "reconstruction_spec (searchParams ?u) = ''https://api.example.com/a?x=1/y=2''"
    by code_simp
  have m: "match_http_scheme ''https://api.example.com/a?x=1/y=2''" by code_simp
  note t = legacy_reconstruction [where u = ?u and s = ?s]
  from t a b k p
  have j: "join ''/'' (dropWhile (\<lambda>p. p = [])
             (map (key_piece (searchParams ?u)) (searchParams_keys (searchParams ?u))))
           = reconstruction_spec (searchParams ?u)"
    by blast
  from t a b have "target_candidate ?u =
       (if (1 < length (searchParams_keys (searchParams ?u)) \<or>
            (length (searchParams_keys (searchParams ?u)) = 1 \<and> \<not> String_includes ?s ''=''))
           \<and> match_http_scheme (reconstruction_spec (searchParams ?u))
        then Some (reconstruction_spec (searchParams ?u))
        else Some (decode_search ?s))"
    unfolding j by blast
  with k s m have 1: "target_candidate ?u = Some ''https://api.example.com/a?x=1/y=2''"
    by simp
  have a': "searchParams_get (searchParams ?v) ''url'' = None" by code_simp
  have b': "search ?v = ''?'' @ ?t" by code_simp
  have k': "searchParams_keys (searchParams ?v) = [''example.com/a'', ''b'']" by code_simp
  have j': "join ''/'' (dropWhile (\<lambda>p. p = [])
             (map (key_piece (searchParams ?v)) (searchParams_keys (searchParams ?v))))
           = ''example.com/a/b''" by code_simp
  have m': "\<not> match_http_scheme ''example.com/a/b''" by code_simp
  have d': "decode_search ?t = ?t" by code_simp
  from legacy_reconstruction [where u = ?v and s = ?t] a' b'
  have "target_candidate ?v =
       (if (1 < length (searchParams_keys (searchParams ?v)) \<or>
            (length (searchParams_keys (searchParams ?v)) = 1 \<and> \<not> String_includes ?t ''=''))
           \<and> match_http_scheme (join ''/'' (dropWhile (\<lambda>p. p = [])
               (map (key_piece (searchParams ?v)) (searchParams_keys (searchParams ?v)))))
        then Some (join ''/'' (dropWhile (\<lambda>p. p = [])
               (map (key_piece (searchParams ?v)) (searchParams_keys (searchParams ?v)))))
        else Some (decode_search ?t))"
    by blast
  then have 2: "target_candidate ?v = Some ?t"
    unfolding j' using m' d' by simp
  from a k s 1 2 show ?thesis by simp
qed

subsection \<open>Admission\<close>













subsection \<open>Header lists\<close>












subsection \<open>CORS headers of the responses\<close>



text \<open>The statuses that the handler writes itself are accepted with the bodies it gives them.\<close>

lemma Response_accepts_literals:
  "\<not> Response_throws b 200" "\<not> Response_throws b 403" "\<not> Response_throws b 502"
  by (simp_all add: Response_throws_def)






subsection \<open>Relay failure\<close>







subsection \<open>Streaming decision\<close>

lemma streamParam_empty: "streamParam rt [] = None"
  by (simp add: streamParam_def URL_parse_def preprocess_def clean_def trim_start_def trim_end_def
      parse_scheme_def)

lemma shouldStreamResponse_preflight:
  "method request = ''OPTIONS'' \<Longrightarrow> \<not> shouldStreamResponse rt upstream request targetUrl"
  by (simp add: shouldStreamResponse_def)

lemma shouldStreamResponse_other:
  assumes "method request \<noteq> ''OPTIONS''"
  shows "shouldStreamResponse rt upstream request targetUrl =
           (shouldStream_spec rt upstream request targetUrl \<or>
            String_includes (or_empty (Headers_get (response_headers upstream) ''content-encoding''))
              ''chunked'')"
proof (cases "targetUrl = []")
  case True
  then show ?thesis using assms
    by (auto simp: shouldStreamResponse_def shouldStream_spec_def Let_def streamParam_empty)
next
  case False
  then show ?thesis using assms
    by (auto simp: shouldStreamResponse_def shouldStream_spec_def Let_def)
qed

text \<open>
  Claim C5, as stated: a response to a request that is no preflight is streamed if and
  only if one of six conditions holds. It fails for a response whose only header is
  \<open>Content-Encoding: chunked\<close>, to a \<open>GET\<close> request without \<open>Accept\<close> for the target
  \<open>https://example.com/\<close>: none of the six holds, and the worker streams it, by its test
  of the content encoding on lines 225-228.
\<close>

theorem content_encoding_streams:
  "shouldStreamResponse plain_runtime
     \<lparr> status = 200, statusText = ''OK'',
       response_headers = [(''Content-Encoding'', ''chunked'')], response_body = Streamed ''data'' \<rparr>
     (request_to ''GET'' ''url=https://example.com/'' []) ''https://example.com/'' \<and>
   \<not> shouldStream_spec plain_runtime
     \<lparr> status = 200, statusText = ''OK'',
       response_headers = [(''Content-Encoding'', ''chunked'')], response_body = Streamed ''data'' \<rparr>
     (request_to ''GET'' ''url=https://example.com/'' []) ''https://example.com/'' \<and>
   method (request_to ''GET'' ''url=https://example.com/'' []) \<noteq> ''OPTIONS''"
  by code_simp

text \<open>
  Claim C5, amended: a preflight request is never streamed; the response to any other
  request is streamed if and only if one of the six conditions holds (its content type
  contains \<open>text/event-stream\<close>; its transfer encoding in lower case contains \<open>chunked\<close>;
  the \<open>Accept\<close> header of the request contains \<open>text/event-stream\<close>; the first \<open>stream\<close>
  parameter in the query of the target URL is \<open>true\<close> or \<open>1\<close>; its content type contains
  \<open>application/x-ndjson\<close>; its content type contains \<open>text/plain\<close> and its transfer
  encoding is chunked) or its content encoding contains \<open>chunked\<close>.
\<close>

theorem streaming_decision:
  "(method request = ''OPTIONS'' \<longrightarrow> \<not> shouldStreamResponse rt upstream request targetUrl) \<and>
   (method request \<noteq> ''OPTIONS'' \<longrightarrow>
      shouldStreamResponse rt upstream request targetUrl =
        (shouldStream_spec rt upstream request targetUrl \<or>
         String_includes (or_empty (Headers_get (response_headers upstream) ''content-encoding''))
           ''chunked''))"
  using shouldStreamResponse_preflight [of request rt upstream targetUrl]
    shouldStreamResponse_other [of request rt upstream targetUrl]
  by blast

theorem streaming_decision_witness:
  "\<not> shouldStreamResponse plain_runtime
       \<lparr> status = 200, statusText = ''OK'',
         response_headers = [(''Content-Type'', ''text/event-stream'')], response_body = Null \<rparr>
       (request_to ''OPTIONS'' ''url=https://example.com/'' []) ''https://example.com/'' \<and>
   shouldStreamResponse plain_runtime
       \<lparr> status = 200, statusText = ''OK'',
         response_headers = [(''Content-Type'', ''text/event-stream'')], response_body = Null \<rparr>
       (request_to ''POST'' ''url=https://example.com/'' []) ''https://example.com/'' \<and>
   shouldStreamResponse plain_runtime
       \<lparr> status = 200, statusText = ''OK'',
         response_headers = [(''Content-Type'', ''application/json'')], response_body = Null \<rparr>
       (request_to ''GET'' ''url=https://example.com/v1?stream=true'' [])
       ''https://example.com/v1?stream=true'' \<and>
   \<not> shouldStreamResponse plain_runtime
       \<lparr> status = 200, statusText = ''OK'',
         response_headers = [(''Content-Type'', ''application/json'')],
         response_body = Streamed ''{}'' \<rparr>
       (request_to ''GET'' ''url=https://example.com/'' []) ''https://example.com/''"
proof -
  let ?sse = "\<lparr> status = 200, statusText = ''OK'',
         response_headers = [(''Content-Type'', ''text/event-stream'')], response_body = Null \<rparr>"
  let ?json = "\<lparr> status = 200, statusText = ''OK'',
         response_headers = [(''Content-Type'', ''application/json'')], response_body = Null \<rparr>"
  let ?body = "\<lparr> status = 200, statusText = ''OK'',
         response_headers = [(''Content-Type'', ''application/json'')],
         response_body = Streamed ''{}'' \<rparr>"
  let ?o = "request_to ''OPTIONS'' ''url=https://example.com/'' []"
  let ?p = "request_to ''POST'' ''url=https://example.com/'' []"
  let ?s = "request_to ''GET'' ''url=https://example.com/v1?stream=true'' []"
  let ?g = "request_to ''GET'' ''url=https://example.com/'' []"
  have o: "method ?o = ''OPTIONS''" by (simp add: request_to_def)
  have p: "method ?p \<noteq> ''OPTIONS''" by (simp add: request_to_def)
  have s: "method ?s \<noteq> ''OPTIONS''" by (simp add: request_to_def)
  have g: "method ?g \<noteq> ''OPTIONS''" by (simp add: request_to_def)
  have c: "shouldStream_spec plain_runtime ?sse ?p ''https://example.com/''" by code_simp
  have d: "shouldStream_spec plain_runtime ?json ?s ''https://example.com/v1?stream=true''"
    by code_simp
  have n: "\<not> shouldStream_spec plain_runtime ?body ?g ''https://example.com/''" by code_simp
  have e: "\<not> String_includes (or_empty (Headers_get (response_headers ?body) ''content-encoding''))
               ''chunked''" by code_simp
  from streaming_decision [where request = ?o and rt = plain_runtime and upstream = ?sse
      and targetUrl = "''https://example.com/''"] o
  have 1: "\<not> shouldStreamResponse plain_runtime ?sse ?o ''https://example.com/''" by blast
  from streaming_decision [where request = ?p and rt = plain_runtime and upstream = ?sse
      and targetUrl = "''https://example.com/''"] p c
  have 2: "shouldStreamResponse plain_runtime ?sse ?p ''https://example.com/''" by blast
  from streaming_decision [where request = ?s and rt = plain_runtime and upstream = ?json
      and targetUrl = "''https://example.com/v1?stream=true''"] s d
  have 3: "shouldStreamResponse plain_runtime ?json ?s ''https://example.com/v1?stream=true''"
    by blast
  note t = streaming_decision [where request = ?g and rt = plain_runtime and upstream = ?body
      and targetUrl = "''https://example.com/''"]
  from t g n e
  have 4: "\<not> shouldStreamResponse plain_runtime ?body ?g ''https://example.com/''" by blast
  from 1 2 3 4 show ?thesis by blast
qed

subsection \<open>Outbound headers\<close>




























end
